theory Spec2Isabelle
  imports Complex_Main "HOL-Library.Log_Nat"
begin

section \<open>Python values used by the two kernels\<close>

text \<open>
  The two source files, \<^verbatim>\<open>insight_engine.py\<close> and \<^verbatim>\<open>uavi_humor.py\<close>, compute with
  Python \<^verbatim>\<open>int\<close> (unbounded, modelled as \<^typ>\<open>int\<close>), \<^verbatim>\<open>str\<close> (modelled as
  \<^typ>\<open>string\<close>, ASCII identifiers) and \<^verbatim>\<open>float\<close>. A finite float is modelled as the
  rational number it denotes; every operation that produces a float rounds its exact
  result to the nearest IEEE 754 double, ties to even, as CPython does.
  A raised exception is the \<open>Inl\<close> branch of a sum.
\<close>

datatype error =
    ValueError | ZeroDivisionError | OverflowError
  | InvalidInput | NodeNotFound | OracleFailure

text \<open>
  \<open>ValueError\<close>, \<open>ZeroDivisionError\<close> and \<open>OverflowError\<close> are the Python exceptions the
  operations of the source can raise. \<open>InvalidInput\<close>, \<open>NodeNotFound\<close> and
  \<open>OracleFailure\<close> are the error names of the specification; no statement of the two
  source files raises them, they can only come out of a distance provider or a resonance
  oracle supplied by a subclass.
\<close>

subsection \<open>Floats: rounding to the nearest double\<close>

text \<open>For \<open>q > 0\<close>, \<open>floorlog2 q\<close> is the integer \<open>L\<close> with \<open>2\<^sup>L \<le> q < 2\<^sup>L\<^sup>+\<^sup>1\<close>.\<close>

definition floorlog2 :: "rat \<Rightarrow> int" where
  "floorlog2 q =
     (let (a, b) = quotient_of q; d = bitlen a - bitlen b
      in if 2 powi d \<le> q then d else d - 1)"

definition round_half_even :: "rat \<Rightarrow> int" where
  "round_half_even x =
     (let f = \<lfloor>x\<rfloor>; r = x - of_int f
      in if r < 1 / 2 then f
         else if 1 / 2 < r then f + 1
         else if even f then f else f + 1)"

text \<open>
  A double has a 53-bit significand and its least exponent (of the unit in the last place)
  is \<open>-1074\<close>; below \<open>2\<^sup>-\<^sup>1\<^sup>0\<^sup>2\<^sup>2\<close> the spacing stays \<open>2\<^sup>-\<^sup>1\<^sup>0\<^sup>7\<^sup>4\<close> (subnormal numbers).
\<close>

definition double_exponent :: "rat \<Rightarrow> int" where
  "double_exponent q = max (floorlog2 \<bar>q\<bar> - 52) (- 1074)"

definition round_double :: "rat \<Rightarrow> rat" where
  "round_double q =
     (if q = 0 then 0
      else let e = double_exponent q
           in of_int (round_half_even (q / 2 powi e)) * 2 powi e)"

text \<open>The rationals that are finite doubles (used in the proofs only).\<close>

definition is_double :: "rat \<Rightarrow> bool" where
  "is_double q \<longleftrightarrow> (\<exists>m e. q = of_int m * 2 powi e \<and> \<bar>m\<bar> < 2 ^ 53 \<and> - 1074 \<le> e)"

text \<open>
  \<open>int / int\<close> (true division): CPython returns the correctly rounded quotient, raises
  \<open>ZeroDivisionError\<close> for a zero divisor and \<open>OverflowError\<close> when the rounded quotient
  does not fit a double, that is when it reaches \<open>2\<^sup>1\<^sup>0\<^sup>2\<^sup>4\<close>.
\<close>

definition py_int_truediv :: "int \<Rightarrow> int \<Rightarrow> error + rat" where
  "py_int_truediv a b =
     (if b = 0 then Inl ZeroDivisionError
      else let r = round_double (of_int a / of_int b)
           in if 2 ^ 1024 \<le> \<bar>r\<bar> then Inl OverflowError else Inr r)"

text \<open>
  \<open>float / float\<close>: \<open>ZeroDivisionError\<close> for a zero divisor, else the rounded quotient.
  (A quotient beyond the double range would be an infinity in Python; every float
  division of the source has a divisor of at least \<open>1\<close> and a dividend of at most \<open>10\<close>.)
\<close>

definition py_float_truediv :: "rat \<Rightarrow> rat \<Rightarrow> error + rat" where
  "py_float_truediv x y =
     (if y = 0 then Inl ZeroDivisionError else Inr (round_double (x / y)))"

text \<open>
  The conversion of the size of a set to a float, as the mixed division
  \<^verbatim>\<open>1.0 / intersection\<close> performs it. The size of a Python container is below \<open>2\<^sup>6\<^sup>3\<close>, so
  the conversion cannot overflow and has no error branch.
\<close>

definition py_float_of_len :: "nat \<Rightarrow> rat" where
  "py_float_of_len n = round_double (of_nat n)"

subsection \<open>Strings to integers\<close>

text \<open>
  \<^verbatim>\<open>int(s)\<close> on an ASCII string: surrounding whitespace (the characters 9 to 13 and the
  space, 32) is stripped, one sign is allowed, then decimal digits follow, where single
  underscores may separate digits. Anything else raises \<open>ValueError\<close>, and so does a
  string of more than 4300 digits (the interpreter's default limit, which counts leading
  zeros and does not count underscores).
\<close>

definition is_space :: "char \<Rightarrow> bool" where
  "is_space c = (let n = (of_char c :: nat) in (9 \<le> n \<and> n \<le> 13) \<or> n = 32)"

definition is_digit :: "char \<Rightarrow> bool" where
  "is_digit c = (let n = (of_char c :: nat) in 48 \<le> n \<and> n \<le> 57)"

definition digit_value :: "char \<Rightarrow> int" where
  "digit_value c = int (of_char c) - 48"

definition strip :: "string \<Rightarrow> string" where
  "strip s = rev (dropWhile is_space (rev (dropWhile is_space s)))"

fun parse_digits :: "int \<Rightarrow> string \<Rightarrow> int option" where
  "parse_digits acc [] = Some acc"
| "parse_digits acc (c # cs) =
     (if is_digit c then parse_digits (10 * acc + digit_value c) cs
      else if c = CHR ''_'' \<and> cs \<noteq> [] \<and> is_digit (hd cs) then parse_digits acc cs
      else None)"

definition int_max_str_digits :: nat where
  "int_max_str_digits = 4300"

definition py_int :: "string \<Rightarrow> error + int" where
  "py_int s =
     (let t = strip s;
          neg = (t \<noteq> [] \<and> hd t = CHR ''-'');
          u = (if t \<noteq> [] \<and> (hd t = CHR ''-'' \<or> hd t = CHR ''+'') then tl t else t)
      in case u of
           [] \<Rightarrow> Inl ValueError
         | c # cs \<Rightarrow>
             if is_digit c
             then (case parse_digits (digit_value c) cs of
                     None \<Rightarrow> Inl ValueError
                   | Some n \<Rightarrow>
                       if int_max_str_digits < length (filter is_digit u) then Inl ValueError
                       else Inr (if neg then - n else n))
             else Inl ValueError)"

section \<open>Data model\<close>

text \<open>
  Modelled from the spec: \<^verbatim>\<open>ThoughtNode\<close>, \<^verbatim>\<open>NodeType\<close> and \<^verbatim>\<open>GraphKernel\<close> are
  imported by both source files from the module \<^verbatim>\<open>uavi_core\<close>, which is not part of the
  sources. A node has an identifier (the field \<^verbatim>\<open>id\<close>, here \<open>node_id\<close>), a kind, a free
  text and a metadata dictionary, of which the source reads the key \<^verbatim>\<open>'tags'\<close> only, a
  list of strings. A kernel owns nodes and directed edges.
\<close>

datatype node_type = PREMISE | CLAIM | OTHER string

record thought_node =
  node_id :: string
  node_type :: node_type
  content :: string
  metadata :: "string \<rightharpoonup> string list"

record graph_kernel =
  nodes :: "string \<rightharpoonup> thought_node"
  edges :: "(string \<times> string) list"

text \<open>The dataclass \<^verbatim>\<open>InsightEvent\<close> of \<^verbatim>\<open>insight_engine.py\<close>.\<close>

record insight_event =
  source_id :: string
  target_id :: string
  surface_distance :: int
  tunnel_distance :: int
  compression_ratio :: rat
  magnitude :: string

text \<open>
  The dataclass \<^verbatim>\<open>HumorMetric\<close> of \<^verbatim>\<open>uavi_humor.py\<close>; its three fields are floats. The
  fields carry the prefix \<open>humor_\<close> to keep them apart from those of \<open>insight_event\<close>.
\<close>

record humor_metric =
  humor_surface_distance :: rat
  humor_tunnel_distance :: rat
  humor_compression_ratio :: rat

section \<open>The insight kernel\<close>

text \<open>
  \<^verbatim>\<open>InsightAwareKernel._get_graph_distance\<close>:
  \<^verbatim>\<open>return abs(int(start[1:]) - int(end[1:]))\<close>. The kernel \<open>self\<close> is not read.
\<close>

definition get_graph_distance :: "graph_kernel \<Rightarrow> string \<Rightarrow> string \<Rightarrow> error + int" where
  "get_graph_distance self start end' =
     (case py_int (drop 1 start) of
        Inl e \<Rightarrow> Inl e
      | Inr a \<Rightarrow>
          (case py_int (drop 1 end') of
             Inl e \<Rightarrow> Inl e
           | Inr b \<Rightarrow> Inr \<bar>a - b\<bar>))"

text \<open>\<^verbatim>\<open>InsightAwareKernel._check_resonance\<close>: \<^verbatim>\<open>return True\<close>.\<close>

definition check_resonance :: "graph_kernel \<Rightarrow> thought_node \<Rightarrow> thought_node \<Rightarrow> error + bool" where
  "check_resonance self a b = Inr True"

text \<open>
  Step 5 of \<^verbatim>\<open>calculate_connection_capacity\<close>: three successive \<^verbatim>\<open>if\<close> statements
  overwrite the variable \<^verbatim>\<open>magnitude\<close>, which starts as \<^verbatim>\<open>"Minor"\<close>.
\<close>

definition classify_magnitude :: "rat \<Rightarrow> string" where
  "classify_magnitude ratio =
     (let magnitude = ''Minor'';
          magnitude = (if 2 < ratio then ''Major'' else magnitude);
          magnitude = (if 5 < ratio then ''Epiphany'' else magnitude);
          magnitude = (if 10 < ratio then ''Paradigm Shift'' else magnitude)
      in magnitude)"

text \<open>
  The body of \<^verbatim>\<open>calculate_connection_capacity\<close>. The two methods it calls on \<^verbatim>\<open>self\<close>,
  \<^verbatim>\<open>_get_graph_distance\<close> and \<^verbatim>\<open>_check_resonance\<close>, are dispatched dynamically, so a
  subclass can supply another distance provider or resonance oracle: they are the
  parameters \<open>distance_of\<close> and \<open>resonance_of\<close>, and either may raise.
\<close>

definition connection_capacity ::
  "(string \<Rightarrow> string \<Rightarrow> error + int) \<Rightarrow> (thought_node \<Rightarrow> thought_node \<Rightarrow> error + bool)
     \<Rightarrow> thought_node \<Rightarrow> thought_node \<Rightarrow> error + insight_event option" where
  "connection_capacity distance_of resonance_of node_a node_b =
     (case distance_of (node_id node_a) (node_id node_b) of
        Inl e \<Rightarrow> Inl e
      | Inr current_path_len \<Rightarrow>
          if current_path_len \<le> 1 then Inr None
          else
            let tunnel_len = 1 in
            (case resonance_of node_a node_b of
               Inl e \<Rightarrow> Inl e
             | Inr resonance \<Rightarrow>
                 if \<not> resonance then Inr None
                 else
                   (case py_int_truediv current_path_len tunnel_len of
                      Inl e \<Rightarrow> Inl e
                    | Inr ratio \<Rightarrow>
                        Inr (Some \<lparr> source_id = node_id node_a,
                                    target_id = node_id node_b,
                                    surface_distance = current_path_len,
                                    tunnel_distance = tunnel_len,
                                    compression_ratio = ratio,
                                    magnitude = classify_magnitude ratio \<rparr>))))"

text \<open>\<^verbatim>\<open>InsightAwareKernel.calculate_connection_capacity\<close> with the kernel's own two methods.\<close>

definition calculate_connection_capacity ::
  "graph_kernel \<Rightarrow> thought_node \<Rightarrow> thought_node \<Rightarrow> error + insight_event option" where
  "calculate_connection_capacity self node_a node_b =
     connection_capacity (get_graph_distance self) (check_resonance self) node_a node_b"

section \<open>The humor kernel\<close>

text \<open>\<^verbatim>\<open>node.metadata.get('tags', [])\<close>\<close>

definition tags_of :: "thought_node \<Rightarrow> string list" where
  "tags_of n = (case metadata n ''tags'' of None \<Rightarrow> [] | Some ts \<Rightarrow> ts)"

text \<open>\<^verbatim>\<open>HumorAwareKernel._simulate_semantic_distance\<close>\<close>

definition simulate_semantic_distance ::
  "graph_kernel \<Rightarrow> thought_node \<Rightarrow> thought_node \<Rightarrow> error + rat" where
  "simulate_semantic_distance self node_a node_b =
     (let tags_a = set (tags_of node_a);
          tags_b = set (tags_of node_b);
          intersection = card (tags_a \<inter> tags_b)
      in if 0 < intersection then py_float_truediv 1 (py_float_of_len intersection)
         else Inr 10)"

text \<open>\<^verbatim>\<open>HumorAwareKernel.measure_humor_potential\<close>\<close>

definition measure_humor_potential ::
  "graph_kernel \<Rightarrow> thought_node \<Rightarrow> thought_node \<Rightarrow> error + humor_metric" where
  "measure_humor_potential self setup punchline =
     (case simulate_semantic_distance self setup punchline of
        Inl e \<Rightarrow> Inl e
      | Inr surface_dist \<Rightarrow>
          let tunnel_dist = 1 in
          (case (if 0 < tunnel_dist then py_float_truediv surface_dist tunnel_dist
                 else Inr 0) of
             Inl e \<Rightarrow> Inl e
           | Inr ratio \<Rightarrow>
               Inr \<lparr> humor_surface_distance = surface_dist,
                     humor_tunnel_distance = tunnel_dist,
                     humor_compression_ratio = ratio \<rparr>))"

text \<open>
  The value of the local variable \<^verbatim>\<open>intersection\<close> of \<^verbatim>\<open>_simulate_semantic_distance\<close>:
  the number of distinct tags the two nodes share.
\<close>

definition shared_tags :: "thought_node \<Rightarrow> thought_node \<Rightarrow> nat" where
  "shared_tags a b = card (set (tags_of a) \<inter> set (tags_of b))"

section \<open>Fixtures of the two demonstrations\<close>

text \<open>
  The nodes built by \<^verbatim>\<open>demonstrate_aha_moment\<close> and \<^verbatim>\<open>demonstrate_compression_tunnel\<close>.
  The first two are built without metadata; the text of the punchline, which neither kernel
  reads, is written without its apostrophes. Both demonstrations start from a fresh kernel.
\<close>

definition n1 :: thought_node where
  "n1 = \<lparr> node_id = ''n1'', node_type = PREMISE,
           content = ''Light creates interference patterns.'', metadata = Map.empty \<rparr>"

definition n10 :: thought_node where
  "n10 = \<lparr> node_id = ''n10'', node_type = CLAIM,
            content = ''Light ejects electrons as particles.'', metadata = Map.empty \<rparr>"

definition setup_node :: thought_node where
  "setup_node =
     \<lparr> node_id = ''setup'', node_type = PREMISE,
       content = ''I asked the librarian for books on paranoia.'',
       metadata = [''tags'' \<mapsto> [''library'', ''books'', ''information'']] \<rparr>"

definition punchline_node :: thought_node where
  "punchline_node =
     \<lparr> node_id = ''punchline'', node_type = CLAIM,
       content = ''She whispered, They are right behind you.'',
       metadata = [''tags'' \<mapsto> [''conspiracy'', ''fear'', ''whisper'']] \<rparr>"

definition fresh_kernel :: graph_kernel where
  "fresh_kernel = \<lparr> nodes = Map.empty, edges = [] \<rparr>"

section \<open>The order of magnitudes\<close>

text \<open>
  Modelled from the spec: the source stores a magnitude as a string and never compares two
  of them; the order \<open>Minor < Major < Epiphany < ParadigmShift\<close> is the one the
  specification gives. A string that is no magnitude ranks above all four.
\<close>

definition magnitude_rank :: "string \<Rightarrow> nat" where
  "magnitude_rank m =
     (if m = ''Minor'' then 0
      else if m = ''Major'' then 1
      else if m = ''Epiphany'' then 2
      else if m = ''Paradigm Shift'' then 3
      else 4)"


section \<open>Properties of the rounding\<close>

lemma powi2_add: "(2::rat) powi (m + n) = 2 powi m * 2 powi n"
  by (simp add: power_int_add)

lemma powi2_diff: "(2::rat) powi (m - n) = 2 powi m / 2 powi n"
  by (simp add: power_int_diff)

lemma powi2_pos: "0 < (2::rat) powi m"
  by simp

lemma bitlen_powi_bounds:
  assumes "0 < a"
  shows "(2::rat) powi (bitlen a - 1) \<le> of_int a" and "of_int a < (2::rat) powi bitlen a"
proof -
  have b1: "1 \<le> bitlen a" using assms by (simp add: bitlen_alt_def)
  from bitlen_bounds[OF assms] have lo: "2 ^ nat (bitlen a - 1) \<le> a" and hi: "a < 2 ^ nat (bitlen a)"
    by auto
  have "(of_int (2 ^ nat (bitlen a - 1)) :: rat) \<le> of_int a" using lo by (simp only: of_int_le_iff)
  then show "(2::rat) powi (bitlen a - 1) \<le> of_int a"
    using b1 by (simp add: power_int_def)
  have "(of_int a :: rat) < of_int (2 ^ nat (bitlen a))" using hi by (simp only: of_int_less_iff)
  then show "of_int a < (2::rat) powi bitlen a"
    using b1 by (simp add: power_int_def)
qed

lemma floorlog2_bounds:
  assumes "0 < q"
  shows "2 powi floorlog2 q \<le> q" and "q < 2 powi (floorlog2 q + 1)"
proof -
  obtain a b where ab: "quotient_of q = (a, b)" by (cases "quotient_of q")
  have bpos: "0 < b" using ab by (rule quotient_of_denom_pos)
  have q: "q = of_int a / of_int b" using ab by (rule quotient_of_div)
  have apos: "0 < a" using assms bpos q by (simp add: zero_less_divide_iff)
  define d where "d = bitlen a - bitlen b"
  have fl: "floorlog2 q = (if 2 powi d \<le> q then d else d - 1)"
    by (simp add: floorlog2_def ab d_def)
  have up: "q < 2 powi (d + 1)"
  proof -
    have "q < 2 powi bitlen a / of_int b"
      unfolding q using bitlen_powi_bounds(2)[OF apos] bpos by (simp add: divide_strict_right_mono)
    also have "\<dots> \<le> 2 powi bitlen a / 2 powi (bitlen b - 1)"
      using bitlen_powi_bounds(1)[OF bpos] by (intro divide_left_mono) (auto intro!: mult_pos_pos simp: bpos)
    also have "\<dots> = 2 powi (d + 1)"
      by (simp add: d_def powi2_diff powi2_add)
    finally show ?thesis .
  qed
  have lo: "2 powi (d - 1) \<le> q"
  proof -
    have "(2::rat) powi (d - 1) = 2 powi (bitlen a - 1) / 2 powi bitlen b"
      by (simp add: d_def powi2_diff)
    also have "\<dots> \<le> of_int a / 2 powi bitlen b"
      using bitlen_powi_bounds(1)[OF apos] by (simp add: divide_right_mono)
    also have "\<dots> \<le> of_int a / of_int b"
      using bitlen_powi_bounds(2)[OF bpos] apos bpos by (intro divide_left_mono) (auto intro!: mult_pos_pos)
    finally show ?thesis unfolding q .
  qed
  show "2 powi floorlog2 q \<le> q" using lo by (simp add: fl)
  show "q < 2 powi (floorlog2 q + 1)" using up by (auto simp add: fl)
qed

lemma round_half_even_of_int: "round_half_even (of_int n) = n"
  by (simp add: round_half_even_def)

lemma round_half_even_ge_floor: "\<lfloor>x\<rfloor> \<le> round_half_even x"
  by (simp add: round_half_even_def Let_def)

lemma round_half_even_le_floor1: "round_half_even x \<le> \<lfloor>x\<rfloor> + 1"
  by (simp add: round_half_even_def Let_def)

lemma powi2_less_imp:
  assumes "(2::rat) powi m < 2 powi n"
  shows "m < n"
proof (rule ccontr)
  assume "\<not> m < n"
  then have "n \<le> m" by simp
  then have "(2::rat) powi n \<le> 2 powi m" by (simp add: power_int_increasing)
  then show False using assms by simp
qed

lemma powi2_mono: "m \<le> n \<Longrightarrow> (2::rat) powi m \<le> 2 powi n"
  by (simp add: power_int_increasing)

lemma powi2_of_int: "0 \<le> n \<Longrightarrow> (2::rat) powi n = of_int (2 ^ nat n)"
  by (simp add: power_int_def)

lemma round_double_nz:
  "q \<noteq> 0 \<Longrightarrow>
   round_double q =
     of_int (round_half_even (q / 2 powi double_exponent q)) * 2 powi double_exponent q"
  by (simp add: round_double_def Let_def)

lemma double_exponent_le:
  assumes "q \<noteq> 0" "\<bar>q\<bar> < 2 powi (53 + e0)" "- 1074 \<le> e0"
  shows "double_exponent q \<le> e0"
proof -
  have "2 powi floorlog2 \<bar>q\<bar> \<le> \<bar>q\<bar>" using assms(1) by (intro floorlog2_bounds(1)) simp
  then have "(2::rat) powi floorlog2 \<bar>q\<bar> < 2 powi (53 + e0)" using assms(2) by simp
  then have "floorlog2 \<bar>q\<bar> < 53 + e0" by (rule powi2_less_imp)
  then show ?thesis using assms(3) by (simp add: double_exponent_def)
qed

lemma round_double_exact:
  assumes "is_double q"
  shows "round_double q = q"
proof (cases "q = 0")
  case True
  then show ?thesis by (simp add: round_double_def)
next
  case False
  from assms obtain m e0 where q: "q = of_int m * 2 powi e0" and m: "\<bar>m\<bar> < 2 ^ 53" and e0: "- 1074 \<le> e0"
    unfolding is_double_def by blast
  define e where "e = double_exponent q"
  have "\<bar>q\<bar> = of_int \<bar>m\<bar> * 2 powi e0" by (simp add: q abs_mult)
  also have "\<dots> < 2 ^ 53 * 2 powi e0"
  proof -
    have "(of_int \<bar>m\<bar> :: rat) < of_int (2 ^ 53)" using m by (simp only: of_int_less_iff)
    then show ?thesis by (simp add: mult_strict_right_mono)
  qed
  also have "\<dots> = 2 powi (53 + e0)" by (simp add: powi2_add)
  finally have "\<bar>q\<bar> < 2 powi (53 + e0)" .
  then have le: "e \<le> e0" unfolding e_def using False e0 by (intro double_exponent_le)
  have "q / 2 powi e = of_int m * 2 powi (e0 - e)" by (simp add: q powi2_diff)
  also have "\<dots> = of_int (m * 2 ^ nat (e0 - e))" using le by (simp add: powi2_of_int)
  finally have sc: "q / 2 powi e = of_int (m * 2 ^ nat (e0 - e))" .
  have "round_double q = of_int (round_half_even (q / 2 powi e)) * 2 powi e"
    using False by (simp add: round_double_nz e_def)
  also have "\<dots> = (q / 2 powi e) * 2 powi e"
    by (simp only: sc round_half_even_of_int)
  also have "\<dots> = q" by simp
  finally show ?thesis .
qed

lemma is_double_of_int:
  assumes "\<bar>n\<bar> \<le> 2 ^ 53"
  shows "is_double (of_int n)"
proof (cases "\<bar>n\<bar> = 2 ^ 53")
  case True
  then have "n = 2 ^ 53 \<or> n = - (2 ^ 53)" by linarith
  then have "(of_int n :: rat) = of_int (n div 2) * 2 powi 1" by auto
  moreover have "\<bar>n div 2\<bar> < 2 ^ 53" using \<open>n = 2 ^ 53 \<or> n = - (2 ^ 53)\<close> by auto
  ultimately show ?thesis unfolding is_double_def by (intro exI[of _ "n div 2"] exI[of _ 1]) simp
next
  case False
  then have "\<bar>n\<bar> < 2 ^ 53" using assms by simp
  then show ?thesis unfolding is_double_def by (intro exI[of _ n] exI[of _ 0]) simp
qed

lemma abs_round_half_even_le:
  assumes "\<bar>x\<bar> < of_int k"
  shows "\<bar>round_half_even x\<bar> \<le> k"
proof -
  have "x < of_int k" "- of_int k < x" using assms by auto
  then have "\<lfloor>x\<rfloor> < k" "- k \<le> \<lfloor>x\<rfloor>" by (simp_all add: floor_less_iff le_floor_iff less_imp_le)
  then show ?thesis using round_half_even_ge_floor[of x] round_half_even_le_floor1[of x] by linarith
qed

lemma is_double_round_double: "is_double (round_double q)"
proof (cases "q = 0")
  case True
  have "is_double (of_int 0)" by (rule is_double_of_int) simp
  then show ?thesis using True by (simp add: round_double_def)
next
  case False
  define e where "e = double_exponent q"
  define m where "m = round_half_even (q / 2 powi e)"
  have rd: "round_double q = of_int m * 2 powi e"
    using False by (simp add: round_double_nz e_def m_def)
  have e: "- 1074 \<le> e" by (simp add: e_def double_exponent_def)
  have "\<bar>q\<bar> < 2 powi (floorlog2 \<bar>q\<bar> + 1)" using False by (intro floorlog2_bounds(2)) simp
  also have "\<dots> \<le> 2 powi (e + 53)" by (intro powi2_mono) (simp add: e_def double_exponent_def)
  also have "\<dots> = 2 powi e * 2 ^ 53" by (simp add: powi2_add)
  finally have "\<bar>q\<bar> / 2 powi e < 2 ^ 53" by (simp add: pos_divide_less_eq mult.commute)
  then have "\<bar>q / 2 powi e\<bar> < of_int (2 ^ 53)" by simp
  then have mle: "\<bar>m\<bar> \<le> 2 ^ 53" unfolding m_def by (rule abs_round_half_even_le)
  show ?thesis
  proof (cases "\<bar>m\<bar> = 2 ^ 53")
    case True
    then have m2: "m = 2 ^ 53 \<or> m = - (2 ^ 53)" by linarith
    then have "(of_int m :: rat) = of_int (m div 2) * 2" by auto
    then have "round_double q = of_int (m div 2) * 2 powi (e + 1)"
      by (simp add: rd powi2_add)
    moreover have "\<bar>m div 2\<bar> < 2 ^ 53" using m2 by auto
    ultimately show ?thesis unfolding is_double_def using e
      by (intro exI[of _ "m div 2"] exI[of _ "e + 1"]) simp
  next
    case False
    then have "\<bar>m\<bar> < 2 ^ 53" using mle by simp
    then show ?thesis unfolding is_double_def using e rd by blast
  qed
qed

lemma round_double_idem: "round_double (round_double q) = round_double q"
  by (rule round_double_exact) (rule is_double_round_double)

lemma round_double_ge_powi:
  assumes "2 powi k \<le> q" "- 1022 \<le> k"
  shows "2 powi k \<le> round_double q"
proof -
  have qpos: "0 < q" using assms(1) powi2_pos[of k] by linarith
  define L where "L = floorlog2 \<bar>q\<bar>"
  have "q < 2 powi (L + 1)" using floorlog2_bounds(2)[of "\<bar>q\<bar>"] qpos by (simp add: L_def)
  then have "(2::rat) powi k < 2 powi (L + 1)" using assms(1) by simp
  then have kL: "k \<le> L" using powi2_less_imp by fastforce
  have e: "double_exponent q = L - 52" using kL assms(2) by (simp add: double_exponent_def L_def)
  have "2 powi L \<le> q" using floorlog2_bounds(1)[of "\<bar>q\<bar>"] qpos by (simp add: L_def)
  then have "2 powi L / 2 powi (L - 52) \<le> q / 2 powi (L - 52)"
    by (simp add: divide_right_mono)
  moreover have "(2::rat) powi L / 2 powi (L - 52) = of_int (2 ^ 52)"
    by (simp add: powi2_diff)
  ultimately have "of_int (2 ^ 52) \<le> q / 2 powi (L - 52)" by simp
  then have "2 ^ 52 \<le> \<lfloor>q / 2 powi (L - 52)\<rfloor>" by (simp only: le_floor_iff)
  then have "2 ^ 52 \<le> round_half_even (q / 2 powi (L - 52))"
    using round_half_even_ge_floor[of "q / 2 powi (L - 52)"] by linarith
  then have "(of_int (2 ^ 52) :: rat) \<le> of_int (round_half_even (q / 2 powi (L - 52)))"
    by (simp only: of_int_le_iff)
  then have "of_int (2 ^ 52) * 2 powi (L - 52) \<le> round_double q"
    using qpos by (simp add: round_double_nz e mult_right_mono)
  moreover have "of_int (2 ^ 52) * (2::rat) powi (L - 52) = 2 powi L"
    by (simp add: powi2_diff)
  ultimately have "2 powi L \<le> round_double q" by simp
  then show ?thesis using powi2_mono[OF kL] by linarith
qed

section \<open>Properties of the Python operations\<close>

lemma py_int_truediv_one:
  "py_int_truediv d 1 =
     (if 2 ^ 1024 \<le> \<bar>round_double (of_int d)\<bar> then Inl OverflowError
      else Inr (round_double (of_int d)))"
  by (simp add: py_int_truediv_def Let_def)

lemma py_int_truediv_exact:
  assumes "\<bar>d\<bar> \<le> 2 ^ 53"
  shows "py_int_truediv d 1 = Inr (of_int d)"
proof -
  have rd: "round_double (of_int d) = of_int d"
    using assms by (intro round_double_exact is_double_of_int)
  have "(of_int \<bar>d\<bar> :: rat) \<le> of_int (2 ^ 53)" using assms by (simp only: of_int_le_iff)
  then have "\<bar>of_int d :: rat\<bar> \<le> 2 ^ 53" by simp
  also have "\<dots> < (2::rat) ^ 1024" by (rule power_strict_increasing) simp_all
  finally show ?thesis by (simp add: py_int_truediv_one rd)
qed

lemma py_int_truediv_ge_2:
  assumes "1 < d" "py_int_truediv d 1 = Inr r"
  shows "2 \<le> r"
proof -
  have r: "r = round_double (of_int d)"
    using assms(2) by (simp add: py_int_truediv_one split: if_splits)
  have "(of_int 2 :: rat) \<le> of_int d" using assms(1) by simp
  then have "(2::rat) powi 1 \<le> of_int d" by simp
  then have "(2::rat) powi 1 \<le> round_double (of_int d)" by (rule round_double_ge_powi) simp
  then show ?thesis by (simp add: r)
qed

lemma py_float_truediv_one:
  assumes "is_double x"
  shows "py_float_truediv x 1 = Inr x"
  using round_double_exact[OF assms] by (simp add: py_float_truediv_def)

lemma py_float_of_len_ge_1:
  assumes "0 < n"
  shows "1 \<le> py_float_of_len n"
proof -
  have "(2::rat) powi 0 \<le> of_nat n" using assms by simp
  then have "(2::rat) powi 0 \<le> round_double (of_nat n)" by (rule round_double_ge_powi) simp
  then show ?thesis by (simp add: py_float_of_len_def)
qed

lemma is_double_10: "is_double 10"
  using is_double_of_int[of 10] by simp

lemma py_int_cases: "py_int s = Inl ValueError \<or> (\<exists>n. py_int s = Inr n)"
  by (simp add: py_int_def Let_def split: list.splits option.splits)

section \<open>Properties of the two kernels\<close>

lemma get_graph_distance_cases:
  "get_graph_distance self s e = Inl ValueError \<or> (\<exists>n. get_graph_distance self s e = Inr n)"
  using py_int_cases[of "drop 1 s"] py_int_cases[of "drop 1 e"]
  by (auto simp add: get_graph_distance_def)

lemma classify_magnitude_eq:
  "classify_magnitude r =
     (if 10 < r then ''Paradigm Shift'' else if 5 < r then ''Epiphany''
      else if 2 < r then ''Major'' else ''Minor'')"
  by (simp add: classify_magnitude_def Let_def)

lemma connection_capacity_adjacent:
  assumes "distance_of (node_id a) (node_id b) = Inr d" "d \<le> 1"
  shows "connection_capacity distance_of resonance_of a b = Inr None"
  using assms by (simp add: connection_capacity_def)

lemma connection_capacity_far:
  assumes "distance_of (node_id a) (node_id b) = Inr d" "1 < d"
  shows "connection_capacity distance_of resonance_of a b =
     (case resonance_of a b of
        Inl e \<Rightarrow> Inl e
      | Inr resonance \<Rightarrow>
          if \<not> resonance then Inr None
          else (case py_int_truediv d 1 of
                  Inl e \<Rightarrow> Inl e
                | Inr ratio \<Rightarrow>
                    Inr (Some \<lparr> source_id = node_id a, target_id = node_id b,
                                surface_distance = d, tunnel_distance = 1,
                                compression_ratio = ratio,
                                magnitude = classify_magnitude ratio \<rparr>)))"
  using assms by (simp add: connection_capacity_def Let_def)

lemma connection_capacity_Some:
  assumes "connection_capacity distance_of resonance_of a b = Inr (Some ev)"
  shows "\<exists>d. distance_of (node_id a) (node_id b) = Inr d \<and> 1 < d \<and>
           resonance_of a b = Inr True \<and>
           py_int_truediv d 1 = Inr (compression_ratio ev) \<and>
           surface_distance ev = d \<and> tunnel_distance ev = 1 \<and>
           source_id ev = node_id a \<and> target_id ev = node_id b \<and>
           magnitude ev = classify_magnitude (compression_ratio ev)"
proof (cases "distance_of (node_id a) (node_id b)")
  case (Inl e)
  then show ?thesis using assms by (simp add: connection_capacity_def)
next
  case (Inr d)
  show ?thesis
  proof (cases "d \<le> 1")
    case True
    then show ?thesis using assms connection_capacity_adjacent[of distance_of a b d resonance_of, OF Inr True] by simp
  next
    case False
    then have d: "1 < d" by simp
    show ?thesis
      using assms unfolding connection_capacity_far[of distance_of a b d resonance_of, OF Inr d]
      by (auto simp add: Inr d split: sum.splits if_splits)
  qed
qed

lemma simulate_semantic_distance_eq:
  "simulate_semantic_distance self a b =
     (if 0 < shared_tags a b then py_float_truediv 1 (py_float_of_len (shared_tags a b))
      else Inr 10)"
  by (simp only: simulate_semantic_distance_def shared_tags_def Let_def)

lemma simulate_semantic_distance_double:
  "\<exists>s. simulate_semantic_distance self a b = Inr s \<and> is_double s"
proof (cases "0 < shared_tags a b")
  case True
  have "1 \<le> py_float_of_len (shared_tags a b)" using True by (rule py_float_of_len_ge_1)
  then have nz: "py_float_of_len (shared_tags a b) \<noteq> 0" by linarith
  have "simulate_semantic_distance self a b =
      Inr (round_double (1 / py_float_of_len (shared_tags a b)))"
    using True nz by (simp only: simulate_semantic_distance_eq py_float_truediv_def if_True if_False)
  then show ?thesis using is_double_round_double by blast
next
  case False
  then have "simulate_semantic_distance self a b = Inr 10"
    by (simp only: simulate_semantic_distance_eq if_False)
  then show ?thesis using is_double_10 by blast
qed

lemma measure_humor_potential_eq:
  assumes "simulate_semantic_distance self a b = Inr s" "is_double s"
  shows "measure_humor_potential self a b =
     Inr \<lparr> humor_surface_distance = s, humor_tunnel_distance = 1, humor_compression_ratio = s \<rparr>"
  using assms by (simp add: measure_humor_potential_def Let_def py_float_truediv_one)

lemma simulate_le_one_shared:
  assumes "shared_tags a b \<le> 1" "simulate_semantic_distance self a b = Inr s"
  shows "1 \<le> s"
proof (cases "shared_tags a b = 0")
  case True
  then show ?thesis using assms(2) by (simp add: simulate_semantic_distance_eq)
next
  case False
  then have k: "shared_tags a b = 1" using assms(1) by simp
  have one: "round_double 1 = 1" using round_double_exact[OF is_double_of_int[of 1]] by simp
  have "simulate_semantic_distance self a b = Inr 1"
    by (simp add: simulate_semantic_distance_eq k py_float_of_len_def py_float_truediv_def one)
  then show ?thesis using assms(2) by simp
qed

lemma tags_of_setup: "tags_of setup_node = [''library'', ''books'', ''information'']"
  by (simp add: tags_of_def setup_node_def)

lemma tags_of_punchline: "tags_of punchline_node = [''conspiracy'', ''fear'', ''whisper'']"
  by (simp add: tags_of_def punchline_node_def)

lemma shared_tags_demo: "shared_tags setup_node punchline_node = 0"
  by (simp add: shared_tags_def tags_of_setup tags_of_punchline)

section \<open>The claims\<close>

subsection \<open>C1: the threshold ladder\<close>

text \<open>
  Claim C1. The magnitude classifier is a ladder of strict thresholds on the compression
  ratio in which the highest satisfied tier wins: a ratio above 10 is a Paradigm Shift, a
  ratio in \<open>(5, 10]\<close> an Epiphany, a ratio in \<open>(2, 5]\<close> Major and a ratio in \<open>(1, 2]\<close>
  Minor; the boundary values 2, 5 and 10 are Minor, Major and Epiphany.
\<close>

theorem classify_magnitude_ladder:
  "(10 < r \<longrightarrow> classify_magnitude r = ''Paradigm Shift'') \<and>
   (5 < r \<and> r \<le> 10 \<longrightarrow> classify_magnitude r = ''Epiphany'') \<and>
   (2 < r \<and> r \<le> 5 \<longrightarrow> classify_magnitude r = ''Major'') \<and>
   (1 < r \<and> r \<le> 2 \<longrightarrow> classify_magnitude r = ''Minor'') \<and>
   classify_magnitude 2 = ''Minor'' \<and>
   classify_magnitude 5 = ''Major'' \<and>
   classify_magnitude 10 = ''Epiphany''"
  by (simp add: classify_magnitude_eq)

theorem classify_magnitude_ladder_witness:
  "classify_magnitude 11 = ''Paradigm Shift'' \<and> classify_magnitude 7 = ''Epiphany'' \<and>
   classify_magnitude 3 = ''Major'' \<and> classify_magnitude (3 / 2) = ''Minor''"
  using classify_magnitude_ladder[of 11] classify_magnitude_ladder[of 7]
    classify_magnitude_ladder[of 3] classify_magnitude_ladder[of "3 / 2"]
  by simp

subsection \<open>C2: the compression ratio is the surface distance\<close>

text \<open>
  Claim C2 as stated, for every distance above 1, fails: the ratio is the float
  \<^verbatim>\<open>current_path_len / tunnel_len\<close>, and an integer beyond \<open>2\<^sup>5\<^sup>3\<close> need not be a double.
  With the kernel's own distance the nodes \<^verbatim>\<open>n0\<close> and \<^verbatim>\<open>n9007199254740993\<close> are
  \<open>2\<^sup>5\<^sup>3 + 1\<close> steps apart, and the ratio of the event is \<open>2\<^sup>5\<^sup>3\<close>.
\<close>

theorem connection_capacity_ratio_counterexample:
  "calculate_connection_capacity fresh_kernel
     \<lparr> node_id = ''n0'', node_type = PREMISE, content = '''', metadata = Map.empty \<rparr>
     \<lparr> node_id = ''n9007199254740993'', node_type = CLAIM, content = '''', metadata = Map.empty \<rparr>
   = Inr (Some \<lparr> source_id = ''n0'', target_id = ''n9007199254740993'',
                   surface_distance = 9007199254740993, tunnel_distance = 1,
                   compression_ratio = 9007199254740992, magnitude = ''Paradigm Shift'' \<rparr>)
   \<and> (9007199254740992 :: rat) \<noteq> of_int 9007199254740993"
  by code_simp

text \<open>
  Claim C2, amended. For every pair of nodes whose reported surface distance \<open>d\<close> is
  greater than 1, is exactly representable as a double and is below \<open>2\<^sup>1\<^sup>0\<^sup>2\<^sup>4\<close>, and for which
  the resonance oracle returns true, the result is an event whose compression ratio equals
  \<open>d\<close> (its tunnel distance being 1).
\<close>

theorem connection_capacity_ratio:
  assumes "distance_of (node_id a) (node_id b) = Inr d" "1 < d"
    and "is_double (of_int d)" "d < 2 ^ 1024"
    and "resonance_of a b = Inr True"
  shows "connection_capacity distance_of resonance_of a b =
     Inr (Some \<lparr> source_id = node_id a, target_id = node_id b,
                 surface_distance = d, tunnel_distance = 1,
                 compression_ratio = of_int d,
                 magnitude = classify_magnitude (of_int d) \<rparr>)"
proof -
  have rd: "round_double (of_int d) = of_int d"
    using assms(3) by (rule round_double_exact)
  have "(of_int d :: rat) < of_int (2 ^ 1024)" using assms(4) by (simp only: of_int_less_iff)
  then have "\<not> (2 :: rat) ^ 1024 \<le> \<bar>of_int d\<bar>" using assms(2) by simp
  then have "py_int_truediv d 1 = Inr (of_int d)"
    by (simp only: py_int_truediv_one rd if_False)
  then show ?thesis
    unfolding connection_capacity_far[of distance_of a b d resonance_of, OF assms(1,2)]
    by (simp add: assms(5))
qed

theorem connection_capacity_ratio_witness:
  "get_graph_distance fresh_kernel ''n0'' ''n9007199254740994'' = Inr 9007199254740994 \<and>
   (1::int) < 9007199254740994 \<and> is_double (of_int 9007199254740994) \<and>
   (9007199254740994::int) < 2 ^ 1024 \<and>
   connection_capacity (get_graph_distance fresh_kernel) (check_resonance fresh_kernel)
     \<lparr> node_id = ''n0'', node_type = PREMISE, content = '''', metadata = Map.empty \<rparr>
     \<lparr> node_id = ''n9007199254740994'', node_type = CLAIM, content = '''',
       metadata = Map.empty \<rparr> =
     Inr (Some \<lparr> source_id = ''n0'', target_id = ''n9007199254740994'',
                 surface_distance = 9007199254740994, tunnel_distance = 1,
                 compression_ratio = 9007199254740994,
                 magnitude = ''Paradigm Shift'' \<rparr>)"
proof -
  let ?a = "\<lparr> node_id = ''n0'', node_type = PREMISE, content = '''', metadata = Map.empty \<rparr>"
  let ?b = "\<lparr> node_id = ''n9007199254740994'', node_type = CLAIM, content = '''',
       metadata = Map.empty \<rparr>"
  have g: "get_graph_distance fresh_kernel ''n0'' ''n9007199254740994'' = Inr 9007199254740994"
    by code_simp
  have h1: "get_graph_distance fresh_kernel (node_id ?a) (node_id ?b) = Inr 9007199254740994"
    using g by simp
  have h2: "(1::int) < 9007199254740994" by simp
  have r: "round_double 9007199254740994 = 9007199254740994" by code_simp
  have "is_double (round_double 9007199254740994)" by (rule is_double_round_double)
  then have h3: "is_double (of_int 9007199254740994)" by (simp add: r)
  have h4: "(9007199254740994::int) < 2 ^ 1024" by simp
  have h5: "check_resonance fresh_kernel ?a ?b = Inr True" by (simp add: check_resonance_def)
  have m: "classify_magnitude 9007199254740994 = ''Paradigm Shift''"
    by (simp add: classify_magnitude_eq)
  show ?thesis
    using g h2 h3 h4 m
      connection_capacity_ratio[of "get_graph_distance fresh_kernel" ?a ?b 9007199254740994
        "check_resonance fresh_kernel", OF h1 h2 h3 h4 h5]
    by simp
qed

subsection \<open>C3: no event for adjacent nodes or without resonance\<close>

text \<open>
  Claim C3. When the distance provider reports a distance of at most 1 the result is
  \<open>None\<close>, whatever the resonance oracle is: the oracle is not consulted, so even an
  oracle that raises does not change the result. When the distance is above 1 and the
  oracle answers false the result is \<open>None\<close> as well.
\<close>

theorem connection_capacity_none:
  "(distance_of (node_id a) (node_id b) = Inr d \<and> d \<le> 1 \<longrightarrow>
      connection_capacity distance_of resonance_of a b = Inr None) \<and>
   (distance_of (node_id a) (node_id b) = Inr d \<and> 1 < d \<and> resonance_of a b = Inr False \<longrightarrow>
      connection_capacity distance_of resonance_of a b = Inr None)"
proof (intro conjI impI)
  assume "distance_of (node_id a) (node_id b) = Inr d \<and> d \<le> 1"
  then show "connection_capacity distance_of resonance_of a b = Inr None"
    using connection_capacity_adjacent[of distance_of a b d resonance_of] by simp
next
  assume h: "distance_of (node_id a) (node_id b) = Inr d \<and> 1 < d \<and> resonance_of a b = Inr False"
  then have "distance_of (node_id a) (node_id b) = Inr d" "1 < d" by simp_all
  from connection_capacity_far[of distance_of a b d resonance_of, OF this] h
  show "connection_capacity distance_of resonance_of a b = Inr None" by simp
qed

theorem connection_capacity_none_witness:
  "get_graph_distance fresh_kernel (node_id n1) (node_id n1) = Inr 0 \<and> (0::int) \<le> 1 \<and>
   connection_capacity (get_graph_distance fresh_kernel) (\<lambda>x y. Inl OracleFailure) n1 n1 = Inr None \<and>
   get_graph_distance fresh_kernel (node_id n1) (node_id n10) = Inr 9 \<and> (1::int) < 9 \<and>
   connection_capacity (get_graph_distance fresh_kernel) (\<lambda>x y. Inr False) n1 n10 = Inr None"
proof -
  have h1: "get_graph_distance fresh_kernel (node_id n1) (node_id n1) = Inr 0" by code_simp
  have h2: "get_graph_distance fresh_kernel (node_id n1) (node_id n10) = Inr 9" by code_simp
  show ?thesis
    using h1 h2
      connection_capacity_none[of "get_graph_distance fresh_kernel" n1 n1 0 "\<lambda>x y. Inl OracleFailure"]
      connection_capacity_none[of "get_graph_distance fresh_kernel" n1 n10 9 "\<lambda>x y. Inr False"]
    by simp
qed

subsection \<open>C4: the same node twice\<close>

text \<open>
  Claim C4 as stated (the same node twice fails with \<open>InvalidInput\<close>) fails: the
  source compares no identifiers, the distance of \<^verbatim>\<open>n1\<close> to itself is 0, and the result
  is \<open>None\<close>.
\<close>

theorem same_node_counterexample:
  "calculate_connection_capacity fresh_kernel n1 n1 = Inr None \<and>
   calculate_connection_capacity fresh_kernel n1 n1 \<noteq> Inl InvalidInput"
  by code_simp

text \<open>
  Claim C4, amended. For two nodes with equal identifiers (in particular for the same node
  twice) \<^verbatim>\<open>calculate_connection_capacity\<close> never fails with \<open>InvalidInput\<close>: it returns
  \<open>None\<close> when the identifier without its first character converts to an integer (the
  distance is then 0), and fails with the error of that conversion otherwise.
\<close>

theorem same_node_no_invalid_input:
  assumes "node_id a = node_id b"
  shows "calculate_connection_capacity self a b =
           (case py_int (drop 1 (node_id a)) of Inl e \<Rightarrow> Inl e | Inr n \<Rightarrow> Inr None) \<and>
         calculate_connection_capacity self a b \<noteq> Inl InvalidInput"
proof -
  have eq: "calculate_connection_capacity self a b =
           (case py_int (drop 1 (node_id a)) of Inl e \<Rightarrow> Inl e | Inr n \<Rightarrow> Inr None)"
    using assms
    by (simp add: calculate_connection_capacity_def connection_capacity_def get_graph_distance_def
        split: sum.splits)
  show ?thesis using eq py_int_cases[of "drop 1 (node_id a)"] by auto
qed

theorem same_node_no_invalid_input_witness:
  "node_id n1 = node_id n1 \<and>
   calculate_connection_capacity fresh_kernel n1 n1 =
           (case py_int (drop 1 (node_id n1)) of Inl e \<Rightarrow> Inl e | Inr n \<Rightarrow> Inr None) \<and>
   calculate_connection_capacity fresh_kernel n1 n1 \<noteq> Inl InvalidInput"
proof -
  have h: "node_id n1 = node_id n1" by simp
  show ?thesis using h same_node_no_invalid_input[of n1 n1 fresh_kernel, OF h] by blast
qed

subsection \<open>C5: tunnel distance 1 and ratio at least 1\<close>

text \<open>
  Claim C5 as stated, for the humor measurement too, fails: the humor kernel has no
  adjacency gate, and two nodes that share two tags get the surface distance and the
  compression ratio \<open>1 / 2\<close>.
\<close>

theorem ratio_invariant_counterexample:
  "measure_humor_potential fresh_kernel
     \<lparr> node_id = ''a'', node_type = PREMISE, content = '''',
       metadata = [''tags'' \<mapsto> [''x'', ''y'']] \<rparr>
     \<lparr> node_id = ''b'', node_type = CLAIM, content = '''',
       metadata = [''tags'' \<mapsto> [''y'', ''x'']] \<rparr>
   = Inr \<lparr> humor_surface_distance = 1 / 2, humor_tunnel_distance = 1,
           humor_compression_ratio = 1 / 2 \<rparr>
   \<and> \<not> (1 :: rat) \<le> 1 / 2"
  by code_simp

text \<open>
  Claim C5, amended. Every event of \<^verbatim>\<open>calculate_connection_capacity\<close> has tunnel distance
  exactly 1 and a compression ratio of at least 1. Every result of the humor measurement
  has tunnel distance exactly 1, and a compression ratio of at least 1 when the two nodes
  share at most one tag.
\<close>

theorem ratio_invariant:
  "(connection_capacity distance_of resonance_of a b = Inr (Some ev) \<longrightarrow>
      tunnel_distance ev = 1 \<and> 1 \<le> compression_ratio ev) \<and>
   (measure_humor_potential self setup punchline = Inr m \<longrightarrow>
      humor_tunnel_distance m = 1 \<and>
      (shared_tags setup punchline \<le> 1 \<longrightarrow> 1 \<le> humor_compression_ratio m))"
proof (intro conjI impI)
  assume h: "connection_capacity distance_of resonance_of a b = Inr (Some ev)"
  from connection_capacity_Some[OF h] obtain d where
    d: "1 < d" "py_int_truediv d 1 = Inr (compression_ratio ev)" and t: "tunnel_distance ev = 1"
    by blast
  show "tunnel_distance ev = 1" by (rule t)
  from py_int_truediv_ge_2[OF d] show "1 \<le> compression_ratio ev" by simp
next
  assume h: "measure_humor_potential self setup punchline = Inr m"
  obtain s where s: "simulate_semantic_distance self setup punchline = Inr s" "is_double s"
    using simulate_semantic_distance_double by blast
  from measure_humor_potential_eq[OF s] h
  have m: "m = \<lparr> humor_surface_distance = s, humor_tunnel_distance = 1,
                  humor_compression_ratio = s \<rparr>" by simp
  show "humor_tunnel_distance m = 1" by (simp add: m)
  assume "shared_tags setup punchline \<le> 1"
  from simulate_le_one_shared[OF this s(1)] show "1 \<le> humor_compression_ratio m"
    by (simp add: m)
qed

theorem ratio_invariant_witness:
  "connection_capacity (get_graph_distance fresh_kernel) (check_resonance fresh_kernel) n1 n10 =
     Inr (Some \<lparr> source_id = ''n1'', target_id = ''n10'', surface_distance = 9,
                 tunnel_distance = 1, compression_ratio = 9, magnitude = ''Epiphany'' \<rparr>) \<and>
   (1 :: int) = 1 \<and> (1 :: rat) \<le> 9 \<and>
   measure_humor_potential fresh_kernel setup_node punchline_node =
     Inr \<lparr> humor_surface_distance = 10, humor_tunnel_distance = 1,
           humor_compression_ratio = 10 \<rparr> \<and>
   shared_tags setup_node punchline_node \<le> 1 \<and> (1 :: rat) \<le> 10"
proof -
  have h1: "connection_capacity (get_graph_distance fresh_kernel) (check_resonance fresh_kernel)
       n1 n10 =
     Inr (Some \<lparr> source_id = ''n1'', target_id = ''n10'', surface_distance = 9,
                 tunnel_distance = 1, compression_ratio = 9, magnitude = ''Epiphany'' \<rparr>)"
    by code_simp
  have h2: "measure_humor_potential fresh_kernel setup_node punchline_node =
     Inr \<lparr> humor_surface_distance = 10, humor_tunnel_distance = 1,
           humor_compression_ratio = 10 \<rparr>"
    by code_simp
  have h3: "shared_tags setup_node punchline_node \<le> 1" by (simp add: shared_tags_demo)
  show ?thesis
    using h1 h2 h3
      ratio_invariant[of "get_graph_distance fresh_kernel" "check_resonance fresh_kernel" n1 n10
        "\<lparr> source_id = ''n1'', target_id = ''n10'', surface_distance = 9,
           tunnel_distance = 1, compression_ratio = 9, magnitude = ''Epiphany'' \<rparr>"
        fresh_kernel setup_node punchline_node
        "\<lparr> humor_surface_distance = 10, humor_tunnel_distance = 1,
           humor_compression_ratio = 10 \<rparr>"]
    by simp
qed

subsection \<open>C6: endpoints that are not in the graph\<close>

text \<open>
  Claim C6 as stated (a missing endpoint fails with \<open>NodeNotFound\<close>) fails: the
  distance is computed from the two identifiers alone. The fresh kernel holds no node, and
  the distance of \<^verbatim>\<open>n1\<close> to \<^verbatim>\<open>n10\<close> in it is 9.
\<close>

theorem missing_node_counterexample:
  "nodes fresh_kernel ''n1'' = None \<and> nodes fresh_kernel ''n10'' = None \<and>
   get_graph_distance fresh_kernel ''n1'' ''n10'' = Inr 9"
  by code_simp

text \<open>
  Claim C6, amended. \<^verbatim>\<open>_get_graph_distance\<close> does not read the graph: its result is the
  same in every kernel and is never \<open>NodeNotFound\<close>. When both identifiers, without their
  first character, convert to integers, it is the absolute difference of the two integers,
  whether or not the nodes are in the graph; when one of the conversions raises
  \<open>ValueError\<close>, so does the distance.
\<close>

theorem get_graph_distance_ignores_graph:
  "get_graph_distance self start end' \<noteq> Inl NodeNotFound \<and>
   get_graph_distance self start end' = get_graph_distance fresh_kernel start end' \<and>
   (py_int (drop 1 start) = Inr x \<and> py_int (drop 1 end') = Inr y \<longrightarrow>
      get_graph_distance self start end' = Inr \<bar>x - y\<bar>) \<and>
   (py_int (drop 1 start) = Inl ValueError \<or> py_int (drop 1 end') = Inl ValueError \<longrightarrow>
      get_graph_distance self start end' = Inl ValueError)"
proof (intro conjI impI)
  show "get_graph_distance self start end' \<noteq> Inl NodeNotFound"
    using get_graph_distance_cases[of self start end'] by auto
  show "get_graph_distance self start end' = get_graph_distance fresh_kernel start end'"
    by (simp add: get_graph_distance_def)
next
  assume "py_int (drop 1 start) = Inr x \<and> py_int (drop 1 end') = Inr y"
  then show "get_graph_distance self start end' = Inr \<bar>x - y\<bar>"
    by (simp add: get_graph_distance_def)
next
  assume "py_int (drop 1 start) = Inl ValueError \<or> py_int (drop 1 end') = Inl ValueError"
  then show "get_graph_distance self start end' = Inl ValueError"
    using py_int_cases[of "drop 1 start"]
    by (auto simp add: get_graph_distance_def split: sum.splits)
qed

theorem get_graph_distance_ignores_graph_witness:
  "py_int (drop 1 ''n1'') = Inr 1 \<and> py_int (drop 1 ''n10'') = Inr 10 \<and>
   get_graph_distance fresh_kernel ''n1'' ''n10'' = Inr \<bar>1 - 10\<bar> \<and>
   py_int (drop 1 ''setup'') = Inl ValueError \<and>
   get_graph_distance fresh_kernel ''setup'' ''n10'' = Inl ValueError"
proof -
  have h1: "py_int (drop 1 ''n1'') = Inr 1" by code_simp
  have h2: "py_int (drop 1 ''n10'') = Inr 10" by code_simp
  have h3: "py_int (drop 1 ''setup'') = Inl ValueError" by code_simp
  show ?thesis
    using h1 h2 h3 get_graph_distance_ignores_graph[of fresh_kernel "''n1''" "''n10''" 1 10]
      get_graph_distance_ignores_graph[of fresh_kernel "''setup''" "''n10''" 0 0]
    by simp
qed

subsection \<open>C7: the scenario of the nodes n1 and n10\<close>

text \<open>
  Claim C7. In every kernel, so also in one that holds the path \<^verbatim>\<open>n1\<close> to \<^verbatim>\<open>n10\<close>, the
  surface distance between \<^verbatim>\<open>n1\<close> and \<^verbatim>\<open>n10\<close> is 9, the resonance check returns true, and
  the result is an event with compression ratio 9 and magnitude Epiphany.
\<close>

theorem path_graph_scenario:
  "get_graph_distance self ''n1'' ''n10'' = Inr 9 \<and>
   check_resonance self n1 n10 = Inr True \<and>
   calculate_connection_capacity self n1 n10 =
     Inr (Some \<lparr> source_id = ''n1'', target_id = ''n10'', surface_distance = 9,
                 tunnel_distance = 1, compression_ratio = 9, magnitude = ''Epiphany'' \<rparr>)"
proof -
  have d: "get_graph_distance self ''n1'' ''n10'' = get_graph_distance fresh_kernel ''n1'' ''n10''"
    by (simp add: get_graph_distance_def)
  have d9: "get_graph_distance fresh_kernel ''n1'' ''n10'' = Inr 9" by code_simp
  have c: "calculate_connection_capacity self n1 n10 =
      calculate_connection_capacity fresh_kernel n1 n10"
  proof -
    have "get_graph_distance self = get_graph_distance fresh_kernel"
      by (intro ext) (simp add: get_graph_distance_def)
    moreover have "check_resonance self = check_resonance fresh_kernel"
      by (intro ext) (simp add: check_resonance_def)
    ultimately show ?thesis by (simp only: calculate_connection_capacity_def)
  qed
  have c9: "calculate_connection_capacity fresh_kernel n1 n10 =
     Inr (Some \<lparr> source_id = ''n1'', target_id = ''n10'', surface_distance = 9,
                 tunnel_distance = 1, compression_ratio = 9, magnitude = ''Epiphany'' \<rparr>)"
    by code_simp
  show ?thesis by (simp only: d d9 c c9 check_resonance_def simp_thms)
qed

theorem path_graph_scenario_witness:
  "calculate_connection_capacity fresh_kernel n1 n10 =
     Inr (Some \<lparr> source_id = ''n1'', target_id = ''n10'', surface_distance = 9,
                 tunnel_distance = 1, compression_ratio = 9, magnitude = ''Epiphany'' \<rparr>)"
  using path_graph_scenario[of fresh_kernel] by blast

subsection \<open>C8: disjoint tag sets\<close>

text \<open>
  Claim C8. For two nodes with disjoint tag sets the simulated distance is 10.0, the humor
  measurement has compression ratio 10.0, and the ratio 10.0 classifies as Epiphany, not as
  Paradigm Shift.
\<close>

theorem disjoint_tags_epiphany:
  assumes "set (tags_of a) \<inter> set (tags_of b) = {}"
  shows "simulate_semantic_distance self a b = Inr 10 \<and>
         measure_humor_potential self a b =
           Inr \<lparr> humor_surface_distance = 10, humor_tunnel_distance = 1,
                 humor_compression_ratio = 10 \<rparr> \<and>
         classify_magnitude 10 = ''Epiphany'' \<and>
         classify_magnitude 10 \<noteq> ''Paradigm Shift''"
proof -
  have k: "shared_tags a b = 0" using assms by (simp add: shared_tags_def)
  have s: "simulate_semantic_distance self a b = Inr 10"
    by (simp add: simulate_semantic_distance_eq k)
  from measure_humor_potential_eq[OF s is_double_10] s show ?thesis
    by (simp add: classify_magnitude_eq)
qed

theorem disjoint_tags_epiphany_witness:
  "set (tags_of setup_node) \<inter> set (tags_of punchline_node) = {} \<and>
   simulate_semantic_distance fresh_kernel setup_node punchline_node = Inr 10 \<and>
   measure_humor_potential fresh_kernel setup_node punchline_node =
     Inr \<lparr> humor_surface_distance = 10, humor_tunnel_distance = 1,
           humor_compression_ratio = 10 \<rparr> \<and>
   classify_magnitude 10 = ''Epiphany''"
proof -
  have h: "set (tags_of setup_node) \<inter> set (tags_of punchline_node) = {}"
    by (simp add: tags_of_setup tags_of_punchline)
  show ?thesis
    using h disjoint_tags_epiphany[of setup_node punchline_node fresh_kernel, OF h] by blast
qed

subsection \<open>C9: the magnitude is a monotonic function of the ratio\<close>

text \<open>
  Claim C9. The classification is monotonic in the order Minor, Major, Epiphany, Paradigm
  Shift: a larger ratio never gets a smaller magnitude. And the magnitude of every event is
  the classification of the compression ratio of that event.
\<close>

theorem classify_magnitude_mono:
  "(r1 \<le> r2 \<longrightarrow>
      magnitude_rank (classify_magnitude r1) \<le> magnitude_rank (classify_magnitude r2)) \<and>
   (connection_capacity distance_of resonance_of a b = Inr (Some ev) \<longrightarrow>
      magnitude ev = classify_magnitude (compression_ratio ev))"
proof (intro conjI impI)
  assume "r1 \<le> r2"
  then show "magnitude_rank (classify_magnitude r1) \<le> magnitude_rank (classify_magnitude r2)"
    by (simp add: classify_magnitude_eq magnitude_rank_def)
next
  assume "connection_capacity distance_of resonance_of a b = Inr (Some ev)"
  then show "magnitude ev = classify_magnitude (compression_ratio ev)"
    by (auto simp add: connection_capacity_def Let_def split: sum.splits if_splits)
qed

theorem classify_magnitude_mono_witness:
  "(3 :: rat) \<le> 7 \<and>
   magnitude_rank (classify_magnitude 3) \<le> magnitude_rank (classify_magnitude 7) \<and>
   connection_capacity (get_graph_distance fresh_kernel) (check_resonance fresh_kernel) n1 n10 =
     Inr (Some \<lparr> source_id = ''n1'', target_id = ''n10'', surface_distance = 9,
                 tunnel_distance = 1, compression_ratio = 9, magnitude = ''Epiphany'' \<rparr>) \<and>
   ''Epiphany'' = classify_magnitude 9"
proof -
  have h: "connection_capacity (get_graph_distance fresh_kernel) (check_resonance fresh_kernel)
       n1 n10 =
     Inr (Some \<lparr> source_id = ''n1'', target_id = ''n10'', surface_distance = 9,
                 tunnel_distance = 1, compression_ratio = 9, magnitude = ''Epiphany'' \<rparr>)"
    by code_simp
  show ?thesis
    using h
      classify_magnitude_mono[of 3 7 "get_graph_distance fresh_kernel"
        "check_resonance fresh_kernel" n1 n10
        "\<lparr> source_id = ''n1'', target_id = ''n10'', surface_distance = 9,
           tunnel_distance = 1, compression_ratio = 9, magnitude = ''Epiphany'' \<rparr>"]
    by simp
qed

subsection \<open>C10: the humor measurement always returns a metric\<close>

text \<open>
  Claim C10. For every pair of nodes, also the same node twice and nodes that share tags,
  \<^verbatim>\<open>measure_humor_potential\<close> returns a metric and raises nothing. The tunnel distance of
  the metric is 1, so the ratio comes from the division, not from the fallback 0, and it
  equals the simulated surface distance.
\<close>

theorem measure_humor_potential_total:
  "\<exists>s. simulate_semantic_distance self setup punchline = Inr s \<and>
        measure_humor_potential self setup punchline =
          Inr \<lparr> humor_surface_distance = s, humor_tunnel_distance = 1,
                humor_compression_ratio = s \<rparr> \<and>
        py_float_truediv s 1 = Inr s"
proof -
  obtain s where s: "simulate_semantic_distance self setup punchline = Inr s" "is_double s"
    using simulate_semantic_distance_double by blast
  from measure_humor_potential_eq[OF s] py_float_truediv_one[OF s(2)] s(1)
  show ?thesis by blast
qed

theorem measure_humor_potential_total_witness:
  "simulate_semantic_distance fresh_kernel setup_node setup_node =
     Inr (6004799503160661 / 18014398509481984) \<and>
   measure_humor_potential fresh_kernel setup_node setup_node =
     Inr \<lparr> humor_surface_distance = 6004799503160661 / 18014398509481984,
           humor_tunnel_distance = 1,
           humor_compression_ratio = 6004799503160661 / 18014398509481984 \<rparr>"
proof -
  have h: "simulate_semantic_distance fresh_kernel setup_node setup_node =
     Inr (6004799503160661 / 18014398509481984)"
    by code_simp
  show ?thesis
    using h measure_humor_potential_total[of fresh_kernel setup_node setup_node] by auto
qed

end
